theory Spec2Isabelle
  imports Main "HOL-Library.Word" "HOL-Library.Sublist"
begin

section \<open>JavaScript values used by server.js\<close>

text \<open>
  A JavaScript string is a sequence of UTF-16 code units. Socket ids, user names, chat
  texts, UUIDs and ISO timestamps are all strings of this kind. The handlers are modelled
  on string arguments, the type the transport boundary declares for them.
\<close>

type_synonym jsstring = "16 word list"

definition lit :: "string \<Rightarrow> jsstring" where
  "lit s = map of_char s"

text \<open>\<^verbatim>\<open>!s\<close> on a string: only the empty string is falsy.\<close>

definition truthy :: "jsstring \<Rightarrow> bool" where
  "truthy s = (s \<noteq> [])"

text \<open>
  The code units \<^verbatim>\<open>String.prototype.trim\<close> strips: ECMAScript WhiteSpace (TAB, VT, FF,
  SP, NBSP, ZWNBSP and the Unicode space separators) and LineTerminator (LF, CR, LS, PS).
\<close>

definition js_whitespace :: "16 word \<Rightarrow> bool" where
  "js_whitespace c =
     (c \<in> set [9, 10, 11, 12, 13, 32, 160, 5760, 8232, 8233, 8239, 8287, 12288, 65279]
      \<or> (8192 \<le> c \<and> c \<le> 8202))"

definition js_trim :: "jsstring \<Rightarrow> jsstring" where
  "js_trim s = rev (dropWhile js_whitespace (rev (dropWhile js_whitespace s)))"

text \<open>
  \<^verbatim>\<open>xs.slice(start)\<close> with one argument: a negative start counts from the end and is
  clamped at 0, a non-negative start is clamped at the length. The array is not changed.
\<close>

definition js_slice :: "int \<Rightarrow> 'a list \<Rightarrow> 'a list" where
  "js_slice start xs =
     (let len = int (length xs);
          k = (if start < 0 then max (len + start) 0 else min start len)
      in drop (nat k) xs)"

text \<open>
  A plain object used as a dictionary with string keys that are not array indices
  (socket ids): properties are enumerated in insertion order, assignment to an existing
  key keeps its position, \<^verbatim>\<open>delete\<close> removes it.
\<close>

type_synonym 'v js_object = "(jsstring \<times> 'v) list"

primrec obj_get :: "'v js_object \<Rightarrow> jsstring \<Rightarrow> 'v option" where
  "obj_get [] k = None"
| "obj_get (p # ps) k = (if fst p = k then Some (snd p) else obj_get ps k)"

primrec obj_set :: "jsstring \<Rightarrow> 'v \<Rightarrow> 'v js_object \<Rightarrow> 'v js_object" where
  "obj_set k v [] = [(k, v)]"
| "obj_set k v (p # ps) = (if fst p = k then (k, v) # ps else p # obj_set k v ps)"

primrec obj_delete :: "jsstring \<Rightarrow> 'v js_object \<Rightarrow> 'v js_object" where
  "obj_delete k [] = []"
| "obj_delete k (p # ps) = (if fst p = k then obj_delete k ps else p # obj_delete k ps)"

definition obj_values :: "'v js_object \<Rightarrow> 'v list" where
  "obj_values obj = map snd obj"

section \<open>Messages and server state\<close>

record file_info =
  fi_id :: jsstring
  fi_filename :: jsstring
  fi_originalname :: jsstring
  fi_path :: jsstring
  fi_size :: nat
  fi_mimetype :: jsstring

text \<open>
  The objects pushed onto \<^verbatim>\<open>messages\<close>, by their \<^verbatim>\<open>type\<close> field:
  \<^verbatim>\<open>{id, type: 'system', message, timestamp}\<close>,
  \<^verbatim>\<open>{id, type: 'chat', username, message, timestamp}\<close> and
  \<^verbatim>\<open>{id, type: 'file', username, fileInfo, timestamp}\<close> (where \<^verbatim>\<open>req.body.username\<close>
  may be absent).
\<close>

datatype message =
    System_msg jsstring jsstring jsstring
  | Chat_msg jsstring jsstring jsstring jsstring
  | File_msg jsstring "jsstring option" file_info jsstring

datatype console_line = Console_log jsstring | Console_error jsstring

text \<open>
  The module-level state: the array \<^verbatim>\<open>messages\<close>, the content of MESSAGES_FILE as an
  array of messages (\<open>None\<close> when the file is missing or does not parse), the object
  \<^verbatim>\<open>users\<close>, the sockets open at the moment with the \<^verbatim>\<open>clientIp\<close> of each connection
  closure, and what was written to the console.
\<close>

record server =
  messages :: "message list"
  messages_file :: "message list option"
  users :: "jsstring js_object"
  sockets :: "jsstring js_object"
  console :: "console_line list"

text \<open>
  What a handler reads from outside the program: the result of \<^verbatim>\<open>uuidv4()\<close>, of
  \<^verbatim>\<open>new Date().toISOString()\<close>, and whether \<^verbatim>\<open>fs.writeFileSync\<close> returns or throws
  (leaving the file in the given condition).
\<close>

datatype write_outcome = Write_ok | Write_throws "message list option"

record env =
  env_uuid :: jsstring
  env_now :: jsstring
  env_write :: write_outcome

text \<open>Outbound traffic: socket.io emissions by scope, and HTTP responses.\<close>

datatype scope = To_all | To_others jsstring | To_one jsstring

datatype payload =
    User_joined jsstring
  | User_left jsstring
  | System_message message
  | Users_list "jsstring list"
  | Message_history "message list"
  | Chat_message message
  | New_file message
  | Typing jsstring
  | Stop_typing jsstring

datatype body =
    Messages_body "message list"
  | Success_body file_info
  | Failure_body jsstring

datatype outbound = Emit scope payload | Respond nat body

section \<open>The functions and handlers of server.js\<close>

text \<open>
  \<^verbatim>\<open>saveMessages\<close>: the \<^verbatim>\<open>try\<close> block rewrites the file with the whole array; when
  the write throws, the \<^verbatim>\<open>catch\<close> block logs and the function returns normally.
\<close>

definition saveMessages :: "write_outcome \<Rightarrow> server \<Rightarrow> server" where
  "saveMessages w st =
     (case w of
        Write_ok \<Rightarrow> st\<lparr>messages_file := Some (messages st)\<rparr>
      | Write_throws left \<Rightarrow>
          st\<lparr>messages_file := left,
             console := console st @ [Console_error (lit ''Error saving messages:'')]\<rparr>)"

text \<open>\<^verbatim>\<open>app.get('/api/messages')\<close>; the argument is \<^verbatim>\<open>parseInt(req.query.limit)\<close>,
  \<open>None\<close> for NaN.\<close>

definition api_messages :: "int option \<Rightarrow> server \<Rightarrow> server \<times> outbound list" where
  "api_messages parsed st =
     (let limit = (case parsed of None \<Rightarrow> 50 | Some n \<Rightarrow> if n = 0 then 50 else n);
          recentMessages = js_slice (- limit) (messages st)
      in (st, [Respond 200 (Messages_body recentMessages)]))"

text \<open>\<^verbatim>\<open>req.file\<close> as multer leaves it.\<close>

record upload_file =
  uf_filename :: jsstring
  uf_originalname :: jsstring
  uf_size :: nat
  uf_mimetype :: jsstring

text \<open>\<^verbatim>\<open>app.post('/upload')\<close>; \<open>fid\<close> is the first \<^verbatim>\<open>uuidv4()\<close>, for \<^verbatim>\<open>fileInfo.id\<close>.\<close>

definition upload ::
  "upload_file option \<Rightarrow> jsstring option \<Rightarrow> jsstring \<Rightarrow> env \<Rightarrow> server \<Rightarrow> server \<times> outbound list"
where
  "upload file username fid e st =
     (case file of
        Some f \<Rightarrow>
          (let fileInfo = \<lparr>fi_id = fid, fi_filename = uf_filename f,
                 fi_originalname = uf_originalname f,
                 fi_path = lit ''/uploads/'' @ uf_filename f,
                 fi_size = uf_size f, fi_mimetype = uf_mimetype f\<rparr>;
               fileMessage = File_msg (env_uuid e) username fileInfo (env_now e);
               st1 = st\<lparr>messages := messages st @ [fileMessage]\<rparr>;
               st2 = saveMessages (env_write e) st1
           in (st2, [Emit To_all (New_file fileMessage), Respond 200 (Success_body fileInfo)]))
      | None \<Rightarrow> (st, [Respond 400 (Failure_body (lit ''No file uploaded''))]))"

text \<open>The start of \<^verbatim>\<open>io.on('connection')\<close>: the IPv4-mapped prefix is cut off.\<close>

definition client_ip :: "jsstring \<Rightarrow> jsstring" where
  "client_ip remoteAddress =
     (if prefix (lit ''::ffff:'') remoteAddress then drop 7 remoteAddress else remoteAddress)"

text \<open>\<^verbatim>\<open>socket.on('user-join')\<close>, for the socket \<open>sid\<close> whose closure holds \<open>clientIp\<close>.\<close>

definition user_join ::
  "jsstring \<Rightarrow> jsstring \<Rightarrow> jsstring \<Rightarrow> env \<Rightarrow> server \<Rightarrow> server \<times> outbound list"
where
  "user_join sid clientIp username e st =
     (let st1 = st\<lparr>users := obj_set sid username (users st)\<rparr>;
          joinMessage = System_msg (env_uuid e)
             (username @ lit '' joined the chat ('' @ clientIp @ lit '')'') (env_now e);
          st2 = st1\<lparr>console := console st1 @
             [Console_log (username @ lit '' connected from IP: '' @ clientIp)]\<rparr>;
          st3 = st2\<lparr>messages := messages st2 @ [joinMessage]\<rparr>;
          st4 = saveMessages (env_write e) st3
      in (st4,
          [Emit (To_others sid) (User_joined username),
           Emit (To_others sid) (System_message joinMessage),
           Emit To_all (Users_list (obj_values (users st4))),
           Emit (To_one sid) (Message_history (js_slice (- 50) (messages st4)))]))"

text \<open>\<^verbatim>\<open>socket.on('get-users')\<close>.\<close>

definition get_users :: "jsstring \<Rightarrow> server \<Rightarrow> server \<times> outbound list" where
  "get_users sid st = (st, [Emit (To_one sid) (Users_list (obj_values (users st)))])"

text \<open>
  \<^verbatim>\<open>socket.on('chat-message')\<close>. \<^verbatim>\<open>users[socket.id]\<close> is \<^verbatim>\<open>undefined\<close> for a socket with
  no entry, and \<^verbatim>\<open>!undefined\<close> holds, so the handler returns before it looks at the text.
\<close>

definition chat_message :: "jsstring \<Rightarrow> jsstring \<Rightarrow> env \<Rightarrow> server \<Rightarrow> server \<times> outbound list" where
  "chat_message sid message e st =
     (case obj_get (users st) sid of
        None \<Rightarrow> (st, [])
      | Some username \<Rightarrow>
          if \<not> truthy username \<or> \<not> truthy (js_trim message) then (st, [])
          else
            (let messageObj = Chat_msg (env_uuid e) username message (env_now e);
                 st1 = st\<lparr>messages := messages st @ [messageObj]\<rparr>;
                 st2 = saveMessages (env_write e) st1
             in (st2, [Emit To_all (Chat_message messageObj)])))"

text \<open>\<^verbatim>\<open>socket.on('typing')\<close> and \<^verbatim>\<open>socket.on('stop-typing')\<close>.\<close>

definition typing :: "jsstring \<Rightarrow> server \<Rightarrow> server \<times> outbound list" where
  "typing sid st =
     (case obj_get (users st) sid of
        None \<Rightarrow> (st, [])
      | Some username \<Rightarrow>
          if truthy username then (st, [Emit (To_others sid) (Typing username)])
          else (st, []))"

definition stop_typing :: "jsstring \<Rightarrow> server \<Rightarrow> server \<times> outbound list" where
  "stop_typing sid st =
     (case obj_get (users st) sid of
        None \<Rightarrow> (st, [])
      | Some username \<Rightarrow>
          if truthy username then (st, [Emit (To_others sid) (Stop_typing username)])
          else (st, []))"

text \<open>\<^verbatim>\<open>socket.on('disconnect')\<close>.\<close>

definition disconnect :: "jsstring \<Rightarrow> env \<Rightarrow> server \<Rightarrow> server \<times> outbound list" where
  "disconnect sid e st =
     (case obj_get (users st) sid of
        None \<Rightarrow> (st, [])
      | Some username \<Rightarrow>
          if truthy username then
            (let leaveMessage = System_msg (env_uuid e)
                   (username @ lit '' left the chat'') (env_now e);
                 st1 = st\<lparr>messages := messages st @ [leaveMessage]\<rparr>;
                 st2 = saveMessages (env_write e) st1;
                 st3 = st2\<lparr>users := obj_delete sid (users st2)\<rparr>
             in (st3,
                 [Emit (To_others sid) (User_left username),
                  Emit (To_others sid) (System_message leaveMessage),
                  Emit To_all (Users_list (obj_values (users st3)))]))
          else (st, []))"

section \<open>The server as a transition system\<close>

text \<open>
  One inbound event at a time, as the event loop runs the handlers. A socket event
  reaches a handler only while its socket is open; socket.io takes the socket out of the
  namespace before it fires \<^verbatim>\<open>disconnect\<close>.
\<close>

datatype inbound =
    In_connection jsstring jsstring
  | In_user_join jsstring jsstring env
  | In_get_users jsstring
  | In_chat_message jsstring jsstring env
  | In_typing jsstring
  | In_stop_typing jsstring
  | In_disconnect jsstring env
  | In_upload "upload_file option" "jsstring option" jsstring env
  | In_api_messages "int option"

fun step :: "server \<Rightarrow> inbound \<Rightarrow> server \<times> outbound list" where
  "step st (In_connection sid remoteAddress) =
     (st\<lparr>sockets := obj_set sid (client_ip remoteAddress) (sockets st)\<rparr>, [])"
| "step st (In_user_join sid username e) =
     (case obj_get (sockets st) sid of
        None \<Rightarrow> (st, [])
      | Some clientIp \<Rightarrow> user_join sid clientIp username e st)"
| "step st (In_get_users sid) =
     (case obj_get (sockets st) sid of None \<Rightarrow> (st, []) | Some _ \<Rightarrow> get_users sid st)"
| "step st (In_chat_message sid message e) =
     (case obj_get (sockets st) sid of
        None \<Rightarrow> (st, [])
      | Some _ \<Rightarrow> chat_message sid message e st)"
| "step st (In_typing sid) =
     (case obj_get (sockets st) sid of None \<Rightarrow> (st, []) | Some _ \<Rightarrow> typing sid st)"
| "step st (In_stop_typing sid) =
     (case obj_get (sockets st) sid of None \<Rightarrow> (st, []) | Some _ \<Rightarrow> stop_typing sid st)"
| "step st (In_disconnect sid e) =
     (case obj_get (sockets st) sid of
        None \<Rightarrow> (st, [])
      | Some _ \<Rightarrow> disconnect sid e (st\<lparr>sockets := obj_delete sid (sockets st)\<rparr>))"
| "step st (In_upload file username fid e) = upload file username fid e st"
| "step st (In_api_messages parsed) = api_messages parsed st"

fun run :: "server \<Rightarrow> inbound list \<Rightarrow> server" where
  "run st [] = st"
| "run st (ev # evs) = run (fst (step st ev)) evs"

text \<open>The state after start-up with no messages file.\<close>

definition initial :: server where
  "initial = \<lparr>messages = [], messages_file = None, users = [], sockets = [], console = []\<rparr>"

section \<open>Delivery of emissions\<close>

text \<open>
  Modelled from the spec: the Broadcast Engine. server.js hands every emission to
  socket.io, whose code is not part of the repository's source.
  \<open>To_all\<close> (\<^verbatim>\<open>io.emit\<close>) delivers to every connected client, \<open>To_others\<close>
  (\<^verbatim>\<open>socket.broadcast.emit\<close>) to every connected client except the origin, \<open>To_one\<close>
  (\<^verbatim>\<open>socket.emit\<close>) to exactly that client. The first argument lists the connected
  clients.
\<close>

fun recipients :: "jsstring list \<Rightarrow> scope \<Rightarrow> jsstring list" where
  "recipients cs To_all = cs"
| "recipients cs (To_others origin) = filter (\<lambda>c. c \<noteq> origin) cs"
| "recipients cs (To_one c) = filter (\<lambda>c'. c' = c) cs"

fun deliver :: "jsstring list \<Rightarrow> outbound \<Rightarrow> (jsstring \<times> payload) list" where
  "deliver cs (Emit sc p) = map (\<lambda>c. (c, p)) (recipients cs sc)"
| "deliver cs (Respond status b) = []"

definition deliveries :: "jsstring list \<Rightarrow> outbound list \<Rightarrow> (jsstring \<times> payload) list" where
  "deliveries cs outs = concat (map (deliver cs) outs)"

section \<open>Specification-side definitions\<close>

text \<open>
  \<open>RecentSlice\<close> in the words of the specification: the last \<open>min n length\<close> events, in
  their original order.
\<close>

definition RecentSlice_spec :: "nat \<Rightarrow> 'a list \<Rightarrow> 'a list" where
  "RecentSlice_spec n xs = drop (length xs - min n (length xs)) xs"

text \<open>The \<^verbatim>\<open>message-history\<close> emissions among the outputs of a handler, with their scope.\<close>

fun history_replays :: "outbound list \<Rightarrow> (scope \<times> message list) list" where
  "history_replays [] = []"
| "history_replays (Emit sc (Message_history ms) # outs) = (sc, ms) # history_replays outs"
| "history_replays (_ # outs) = history_replays outs"

text \<open>The inbound events that may change the name registered for socket \<open>sid\<close>.\<close>

fun user_join_of :: "jsstring \<Rightarrow> inbound \<Rightarrow> bool" where
  "user_join_of sid (In_user_join s _ _) = (s = sid)"
| "user_join_of sid _ = False"

fun disconnect_of :: "jsstring \<Rightarrow> inbound \<Rightarrow> bool" where
  "disconnect_of sid (In_disconnect s _) = (s = sid)"
| "disconnect_of sid _ = False"

text \<open>The same inbound event with another outcome of the file write.\<close>

fun set_write :: "write_outcome \<Rightarrow> inbound \<Rightarrow> inbound" where
  "set_write w (In_user_join sid username e) = In_user_join sid username (e\<lparr>env_write := w\<rparr>)"
| "set_write w (In_chat_message sid message e) = In_chat_message sid message (e\<lparr>env_write := w\<rparr>)"
| "set_write w (In_disconnect sid e) = In_disconnect sid (e\<lparr>env_write := w\<rparr>)"
| "set_write w (In_upload file username fid e) = In_upload file username fid (e\<lparr>env_write := w\<rparr>)"
| "set_write w ev = ev"

section \<open>Concrete scenarios\<close>

definition env_ok :: "jsstring \<Rightarrow> env" where
  "env_ok tag = \<lparr>env_uuid = lit ''id-'' @ tag, env_now = lit ''t-'' @ tag, env_write = Write_ok\<rparr>"

definition sid_a :: jsstring where
  "sid_a = lit ''sockA''"

definition sid_b :: jsstring where
  "sid_b = lit ''sockB''"

text \<open>Socket A connects and joins as alice.\<close>

definition alice_joined :: server where
  "alice_joined = run initial
     [In_connection sid_a (lit ''::ffff:10.0.0.1''),
      In_user_join sid_a (lit ''alice'') (env_ok (lit ''a''))]"

text \<open>Socket B connects and has not joined.\<close>

definition bob_connected :: server where
  "bob_connected = run alice_joined [In_connection sid_b (lit ''10.0.0.2'')]"

text \<open>
  Socket B joins with the empty name; then B signals typing, alice chats and asks for the
  users list, and a request uploads no file. Socket B stays open.
\<close>

definition after_empty_join :: "inbound list" where
  "after_empty_join =
     [In_typing sid_b,
      In_chat_message sid_a (lit ''hi'') (env_ok (lit ''x'')),
      In_get_users sid_a,
      In_upload None None (lit ''f1'') (env_ok (lit ''u''))]"

definition empty_joined :: server where
  "empty_joined =
     run (fst (step bob_connected (In_user_join sid_b [] (env_ok (lit ''b''))))) after_empty_join"

text \<open>Socket B joins with the empty name and then joins again as bob.\<close>

definition rejoined :: server where
  "rejoined = run bob_connected
     [In_user_join sid_b [] (env_ok (lit ''b'')),
      In_user_join sid_b (lit ''bob'') (env_ok (lit ''c''))]"

text \<open>Alice sends sixty chat messages, and then socket B connects.\<close>

definition sixty_chats :: "inbound list" where
  "sixty_chats =
     map (\<lambda>i. In_chat_message sid_a (lit ''msg '' @ [65 + of_nat i]) (env_ok [65 + of_nat i]))
       [0..<60]"

definition sixty_chat_msgs :: "message list" where
  "sixty_chat_msgs =
     map (\<lambda>i. Chat_msg (lit ''id-'' @ [65 + of_nat i]) (lit ''alice'')
                (lit ''msg '' @ [65 + of_nat i]) (lit ''t-'' @ [65 + of_nat i]))
       [0..<60]"

definition after_sixty :: server where
  "after_sixty = run alice_joined (sixty_chats @ [In_connection sid_b (lit ''10.0.0.2'')])"

section \<open>Basic facts\<close>

lemma RecentSlice_spec_suffix:
  "suffix (RecentSlice_spec n xs) xs \<and> length (RecentSlice_spec n xs) = min n (length xs)"
  by (auto simp: RecentSlice_spec_def suffix_drop)

lemma js_slice_neg: "0 < n \<Longrightarrow> js_slice (- n) xs = RecentSlice_spec (nat n) xs"
  by (auto simp: js_slice_def RecentSlice_spec_def Let_def max_def min_def
      intro!: arg_cong2[where f = drop])

lemma messages_saveMessages [simp]: "messages (saveMessages w st) = messages st"
  by (simp add: saveMessages_def split: write_outcome.splits)

lemma users_saveMessages [simp]: "users (saveMessages w st) = users st"
  by (simp add: saveMessages_def split: write_outcome.splits)

lemma sockets_saveMessages [simp]: "sockets (saveMessages w st) = sockets st"
  by (simp add: saveMessages_def split: write_outcome.splits)

lemmas handler_defs = user_join_def get_users_def chat_message_def typing_def stop_typing_def
  disconnect_def upload_def api_messages_def

lemma obj_get_set: "obj_get (obj_set k v obj) k' = (if k' = k then Some v else obj_get obj k')"
  by (induction obj) auto

lemma obj_get_delete: "obj_get (obj_delete k obj) k' = (if k' = k then None else obj_get obj k')"
  by (induction obj) auto

lemma obj_delete_set_fresh: "obj_get obj k = None \<Longrightarrow> obj_delete k (obj_set k v obj) = obj"
  by (induction obj) (auto split: if_splits)

lemma obj_get_values: "obj_get obj k = Some v \<Longrightarrow> v \<in> set (obj_values obj)"
  by (induction obj) (auto simp: obj_values_def split: if_splits)

text \<open>The store is append-only: no handler removes or changes a stored message.\<close>

lemma step_messages_prefix: "prefix (messages st) (messages (fst (step st ev)))"
  by (cases ev) (auto simp: handler_defs Let_def split: option.splits)

lemma run_messages_prefix: "prefix (messages st) (messages (run st evs))"
proof (induction evs arbitrary: st)
  case Nil
  show ?case by simp
next
  case (Cons ev evs)
  have "prefix (messages st) (messages (fst (step st ev)))"
    by (rule step_messages_prefix)
  also have "prefix \<dots> (messages (run (fst (step st ev)) evs))"
    by (rule Cons.IH)
  finally show ?case by simp
qed

text \<open>Which events touch the entry of a socket in \<^verbatim>\<open>users\<close>.\<close>

lemma step_users_other:
  "\<not> user_join_of sid ev \<Longrightarrow> \<not> disconnect_of sid ev \<Longrightarrow>
     obj_get (users (fst (step st ev))) sid = obj_get (users st) sid"
  by (cases ev) (auto simp: handler_defs Let_def obj_get_set obj_get_delete split: option.splits)

lemma run_users_other:
  "\<forall>ev\<in>set evs. \<not> user_join_of sid ev \<and> \<not> disconnect_of sid ev \<Longrightarrow>
     obj_get (users (run st evs)) sid = obj_get (users st) sid"
  by (induction evs arbitrary: st) (simp_all add: step_users_other)

lemma step_users_empty_name:
  "\<not> user_join_of sid ev \<Longrightarrow> obj_get (users st) sid = Some [] \<Longrightarrow>
     obj_get (users (fst (step st ev))) sid = Some []"
  by (cases ev)
     (auto simp: handler_defs Let_def obj_get_set obj_get_delete truthy_def split: option.splits)

lemma run_users_empty_name:
  "\<forall>ev\<in>set evs. \<not> user_join_of sid ev \<Longrightarrow> obj_get (users st) sid = Some [] \<Longrightarrow>
     obj_get (users (run st evs)) sid = Some []"
  by (induction evs arbitrary: st) (simp_all add: step_users_empty_name)

lemma falsy_name_dropped:
  "obj_get (users st) sid = None \<or> obj_get (users st) sid = Some [] \<Longrightarrow>
     step st (In_chat_message sid msg e) = (st, [])
     \<and> step st (In_typing sid) = (st, [])
     \<and> step st (In_stop_typing sid) = (st, [])"
  by (auto simp: handler_defs truthy_def split: option.splits)

lemma falsy_name_handlers:
  "obj_get (users st) sid = None \<or> obj_get (users st) sid = Some [] \<Longrightarrow>
     chat_message sid msg e st = (st, [])
     \<and> typing sid st = (st, [])
     \<and> stop_typing sid st = (st, [])"
  by (auto simp: handler_defs truthy_def split: option.splits)

text \<open>A socket stays open until its own \<^verbatim>\<open>disconnect\<close>.\<close>

lemma step_socket_open:
  "\<not> disconnect_of sid ev \<Longrightarrow> obj_get (sockets st) sid \<noteq> None \<Longrightarrow>
     obj_get (sockets (fst (step st ev))) sid \<noteq> None"
  by (cases ev) (auto simp: handler_defs Let_def obj_get_set obj_get_delete split: option.splits)

lemma run_socket_open:
  "\<forall>ev\<in>set evs. \<not> disconnect_of sid ev \<Longrightarrow> obj_get (sockets st) sid \<noteq> None \<Longrightarrow>
     obj_get (sockets (run st evs)) sid \<noteq> None"
proof (induction evs arbitrary: st)
  case Nil
  then show ?case by simp
next
  case (Cons ev evs)
  from Cons.prems have "\<not> disconnect_of sid ev"
    and rest: "\<forall>ev\<in>set evs. \<not> disconnect_of sid ev"
    by simp_all
  then have "obj_get (sockets (fst (step st ev))) sid \<noteq> None"
    using Cons.prems(2) by (intro step_socket_open)
  with rest have "obj_get (sockets (run (fst (step st ev)) evs)) sid \<noteq> None"
    by (rule Cons.IH)
  then show ?case by simp
qed

lemma users_list_is_snapshot:
  "Emit sc (Users_list names) \<in> set (snd (step st ev)) \<Longrightarrow>
     names = obj_values (users (fst (step st ev)))"
  by (cases ev) (auto simp: handler_defs Let_def split: option.splits if_splits)

lemma users_list_holds_empty_name:
  assumes "obj_get (users st) sid = Some []" and "\<not> user_join_of sid ev"
    and "Emit sc (Users_list names) \<in> set (snd (step st ev))"
  shows "[] \<in> set names"
proof -
  have "obj_get (users (fst (step st ev))) sid = Some []"
    using assms(1,2) by (simp add: step_users_empty_name)
  then have "[] \<in> set (obj_values (users (fst (step st ev))))"
    by (rule obj_get_values)
  then show ?thesis
    using users_list_is_snapshot [OF assms(3)] by simp
qed

lemma messages_alice_joined:
  "messages alice_joined =
     [System_msg (lit ''id-a'') (lit ''alice joined the chat (10.0.0.1)'') (lit ''t-a'')]"
  by code_simp

lemma messages_after_sixty:
  "messages after_sixty =
     System_msg (lit ''id-a'') (lit ''alice joined the chat (10.0.0.1)'') (lit ''t-a'')
       # sixty_chat_msgs"
  by code_simp

section \<open>The replay sent on join\<close>

text \<open>
  C1, as the code has it: \<^verbatim>\<open>user-join\<close> first appends the joiner's own join notice and
  then sends, to the joiner alone, one \<^verbatim>\<open>message-history\<close> holding the last
  \<open>min 50 length\<close> messages of the store as it then stands, in append order. So when
  the store held at least 49 messages before the join, the replay is the last 49 of them
  followed by the join notice.
\<close>

theorem user_join_replay:
  fixes sid ip name :: jsstring and e :: env and st :: server
  defines "joinMessage \<equiv>
    System_msg (env_uuid e) (name @ lit '' joined the chat ('' @ ip @ lit '')'') (env_now e)"
  shows "messages (fst (user_join sid ip name e st)) = messages st @ [joinMessage]
    \<and> history_replays (snd (user_join sid ip name e st)) =
        [(To_one sid, RecentSlice_spec 50 (messages (fst (user_join sid ip name e st))))]
    \<and> (49 \<le> length (messages st) \<longrightarrow>
        history_replays (snd (user_join sid ip name e st)) =
          [(To_one sid, RecentSlice_spec 49 (messages st) @ [joinMessage])])"
proof -
  have slice: "js_slice (- 50) xs = RecentSlice_spec 50 xs" for xs :: "message list"
    using js_slice_neg [of 50 xs] by simp
  have tail: "RecentSlice_spec 50 (xs @ [m]) = RecentSlice_spec 49 xs @ [m]"
    if "49 \<le> length xs" for xs :: "message list" and m
    using that by (simp add: RecentSlice_spec_def min_def)
  show ?thesis
    by (simp add: user_join_def Let_def slice tail joinMessage_def)
qed

theorem user_join_replay_witness:
  "49 \<le> length (messages after_sixty)
   \<and> history_replays (snd (user_join sid_b (lit ''10.0.0.2'') (lit ''bob'') (env_ok (lit ''b''))
        after_sixty)) =
      [(To_one sid_b, RecentSlice_spec 49 (messages after_sixty) @
         [System_msg (env_uuid (env_ok (lit ''b'')))
            (lit ''bob'' @ lit '' joined the chat ('' @ lit ''10.0.0.2'' @ lit '')'')
            (env_now (env_ok (lit ''b'')))])]"
proof -
  have len: "49 \<le> length (messages after_sixty)"
    by (simp add: messages_after_sixty sixty_chat_msgs_def)
  from user_join_replay [of sid_b "lit ''10.0.0.2''" "lit ''bob''" "env_ok (lit ''b'')" after_sixty] len
  show ?thesis by blast
qed

text \<open>
  After sixty chat messages the joiner's replay is not the last fifty chat messages: it
  is the last forty-nine and the joiner's own join notice.
\<close>

theorem replay_after_sixty_chats:
  "messages after_sixty =
     System_msg (lit ''id-a'') (lit ''alice joined the chat (10.0.0.1)'') (lit ''t-a'')
       # sixty_chat_msgs
   \<and> history_replays (snd (step after_sixty (In_user_join sid_b (lit ''bob'') (env_ok (lit ''b'')))))
       \<noteq> [(To_one sid_b, RecentSlice_spec 50 sixty_chat_msgs)]
   \<and> history_replays (snd (step after_sixty (In_user_join sid_b (lit ''bob'') (env_ok (lit ''b'')))))
       = [(To_one sid_b, RecentSlice_spec 49 sixty_chat_msgs @
            [System_msg (lit ''id-b'') (lit ''bob joined the chat (10.0.0.2)'') (lit ''t-b'')])]"
  by code_simp

section \<open>The history query\<close>

text \<open>
  C2, as the code has it: for a positive limit \<open>n\<close> the query returns the last
  \<open>min n length\<close> messages in append order; a limit of 0, like a missing or non-numeric
  one, is replaced by 50. The state is returned as it was.
\<close>

theorem api_messages_recent:
  "(0 < n \<longrightarrow>
      api_messages (Some n) st =
        (st, [Respond 200 (Messages_body (RecentSlice_spec (nat n) (messages st)))]))
   \<and> api_messages (Some 0) st =
        (st, [Respond 200 (Messages_body (RecentSlice_spec 50 (messages st)))])
   \<and> api_messages None st =
        (st, [Respond 200 (Messages_body (RecentSlice_spec 50 (messages st)))])"
  using js_slice_neg [of n "messages st"] js_slice_neg [of 50 "messages st"]
  by (simp add: api_messages_def)

theorem api_messages_recent_witness:
  "(0 :: int) < 2
   \<and> api_messages (Some 2) after_sixty =
        (after_sixty, [Respond 200 (Messages_body (RecentSlice_spec 2 (messages after_sixty)))])"
  using api_messages_recent [of 2 after_sixty] by simp

text \<open>With limit 0 the query returns the stored message, not the last \<open>min 0 1 = 0\<close>.\<close>

theorem api_messages_limit_zero:
  "snd (api_messages (Some 0) alice_joined) \<noteq>
     [Respond 200 (Messages_body (RecentSlice_spec 0 (messages alice_joined)))]"
  by code_simp

section \<open>Chat submissions that are dropped\<close>

text \<open>
  C3: a chat submission from a socket with no entry in \<^verbatim>\<open>users\<close>, or whose text is
  empty after trimming, returns the state as it was (store, file, registry and console
  alike) and emits nothing, so nothing is delivered to any client.
\<close>

theorem chat_message_dropped:
  assumes "obj_get (users st) sid = None \<or> js_trim message = []"
  shows "chat_message sid message e st = (st, [])
     \<and> step st (In_chat_message sid message e) = (st, [])
     \<and> deliveries cs (snd (step st (In_chat_message sid message e))) = []"
  using assms
  by (auto simp: chat_message_def truthy_def deliveries_def split: option.splits)

theorem chat_message_dropped_witness:
  "js_trim (lit ''   '') = []
   \<and> step alice_joined (In_chat_message sid_a (lit ''   '') (env_ok (lit ''x''))) = (alice_joined, [])
   \<and> obj_get (users bob_connected) sid_b = None
   \<and> step bob_connected (In_chat_message sid_b (lit ''hello'') (env_ok (lit ''y''))) =
       (bob_connected, [])"
proof -
  have blank: "js_trim (lit ''   '') = []"
    by code_simp
  have unregistered: "obj_get (users bob_connected) sid_b = None"
    by code_simp
  from chat_message_dropped [of alice_joined sid_a "lit ''   ''" "env_ok (lit ''x'')"]
    chat_message_dropped [of bob_connected sid_b "lit ''hello''" "env_ok (lit ''y'')"]
    blank unregistered
  show ?thesis by blast
qed

section \<open>Broadcast to the others\<close>

text \<open>
  C4: an emission with scope \<open>To_others origin\<close> is delivered to a client exactly when
  that client is connected and is not the origin, and what is delivered is the payload
  emitted. So the \<^verbatim>\<open>user-joined\<close> notice of a join reaches every connected client but
  the joiner.
\<close>

theorem to_others_delivery:
  "((c, q) \<in> set (deliver cs (Emit (To_others origin) p)) \<longleftrightarrow>
      c \<in> set cs \<and> c \<noteq> origin \<and> q = p)
   \<and> ((c, User_joined name) \<in> set (deliveries cs (snd (user_join sid ip name e st))) \<longleftrightarrow>
      c \<in> set cs \<and> c \<noteq> sid)"
  by (auto simp: user_join_def deliveries_def Let_def)

theorem to_others_delivery_witness:
  "(sid_b, Typing (lit ''alice'')) \<in>
      set (deliver [sid_a, sid_b] (Emit (To_others sid_a) (Typing (lit ''alice''))))
   \<and> (sid_a, Typing (lit ''alice'')) \<notin>
      set (deliver [sid_a, sid_b] (Emit (To_others sid_a) (Typing (lit ''alice''))))"
proof -
  have "sid_b \<noteq> sid_a"
    by code_simp
  with to_others_delivery [of sid_b "Typing (lit ''alice'')" "[sid_a, sid_b]" sid_a
      "Typing (lit ''alice'')"]
    to_others_delivery [of sid_a "Typing (lit ''alice'')" "[sid_a, sid_b]" sid_a
      "Typing (lit ''alice'')"]
  show ?thesis by simp
qed

section \<open>Join followed by leave\<close>

text \<open>
  C5, as the code has it: for a socket with no entry in \<^verbatim>\<open>users\<close> and a non-empty
  name, \<^verbatim>\<open>user-join\<close> followed at once by \<^verbatim>\<open>disconnect\<close> leaves \<^verbatim>\<open>users\<close> exactly as it
  was before the join, order of the entries included.
\<close>

theorem join_then_leave_restores:
  assumes "obj_get (users st) sid = None" and "name \<noteq> []"
  shows "users (fst (disconnect sid e2 (fst (user_join sid ip name e1 st)))) = users st
     \<and> (obj_get (sockets st) sid = Some ip \<longrightarrow>
          users (run st [In_user_join sid name e1, In_disconnect sid e2]) = users st)"
  using assms
  by (simp add: user_join_def disconnect_def Let_def obj_get_set obj_delete_set_fresh truthy_def)

theorem join_then_leave_restores_witness:
  "obj_get (users bob_connected) sid_b = None \<and> lit ''bob'' \<noteq> []
   \<and> obj_get (sockets bob_connected) sid_b = Some (lit ''10.0.0.2'')
   \<and> users (run bob_connected [In_user_join sid_b (lit ''bob'') (env_ok (lit ''b'')),
         In_disconnect sid_b (env_ok (lit ''c''))]) = users bob_connected"
proof -
  have fresh: "obj_get (users bob_connected) sid_b = None"
    by code_simp
  have name: "lit ''bob'' \<noteq> []"
    by code_simp
  have sock: "obj_get (sockets bob_connected) sid_b = Some (lit ''10.0.0.2'')"
    by code_simp
  from join_then_leave_restores [OF fresh name, of "env_ok (lit ''c'')" "lit ''10.0.0.2''"
      "env_ok (lit ''b'')"] fresh name sock
  show ?thesis by blast
qed

text \<open>
  A socket that is registered as alice, joins again as bob and disconnects is no longer
  registered; a socket that joins with the empty name and disconnects stays registered.
\<close>

theorem rejoin_then_leave_removes:
  "users (run alice_joined [In_user_join sid_a (lit ''bob'') (env_ok (lit ''b'')),
       In_disconnect sid_a (env_ok (lit ''c''))]) \<noteq> users alice_joined
   \<and> users (run bob_connected [In_user_join sid_b [] (env_ok (lit ''b'')),
       In_disconnect sid_b (env_ok (lit ''c''))]) \<noteq> users bob_connected"
  by code_simp

section \<open>A failing write\<close>

text \<open>
  C6: when the write throws, \<^verbatim>\<open>saveMessages\<close> returns normally with \<^verbatim>\<open>messages\<close> and
  \<^verbatim>\<open>users\<close> as they were and the error on the console. A handler whose write throws
  ends with the same \<^verbatim>\<open>messages\<close>, \<^verbatim>\<open>users\<close>, open sockets and emissions as when the write
  succeeds, and logs the error whenever it appended. What it appended stays in
  \<^verbatim>\<open>messages\<close> through every later sequence of events, and a later successful write
  puts the whole array into the file.
\<close>

theorem write_failure_not_fatal:
  "messages (saveMessages (Write_throws left) st) = messages st
   \<and> users (saveMessages (Write_throws left) st) = users st
   \<and> console (saveMessages (Write_throws left) st) =
       console st @ [Console_error (lit ''Error saving messages:'')]
   \<and> messages (fst (step st (set_write (Write_throws left) ev))) =
       messages (fst (step st (set_write Write_ok ev)))
   \<and> users (fst (step st (set_write (Write_throws left) ev))) =
       users (fst (step st (set_write Write_ok ev)))
   \<and> sockets (fst (step st (set_write (Write_throws left) ev))) =
       sockets (fst (step st (set_write Write_ok ev)))
   \<and> snd (step st (set_write (Write_throws left) ev)) = snd (step st (set_write Write_ok ev))
   \<and> (messages (fst (step st (set_write (Write_throws left) ev))) \<noteq> messages st \<longrightarrow>
        console (fst (step st (set_write (Write_throws left) ev))) =
          console (fst (step st (set_write Write_ok ev))) @
            [Console_error (lit ''Error saving messages:'')])
   \<and> prefix (messages (fst (step st (set_write (Write_throws left) ev))))
       (messages (run (fst (step st (set_write (Write_throws left) ev))) evs))
   \<and> messages_file
        (saveMessages Write_ok (run (fst (step st (set_write (Write_throws left) ev))) evs)) =
       Some (messages (run (fst (step st (set_write (Write_throws left) ev))) evs))"
proof -
  have "messages (saveMessages (Write_throws left) st) = messages st"
    and "users (saveMessages (Write_throws left) st) = users st"
    by simp_all
  moreover have "console (saveMessages (Write_throws left) st) =
       console st @ [Console_error (lit ''Error saving messages:'')]"
    by (simp add: saveMessages_def)
  moreover have "messages (fst (step st (set_write (Write_throws left) ev))) =
       messages (fst (step st (set_write Write_ok ev)))"
    by (cases ev) (auto simp: handler_defs Let_def split: option.splits)
  moreover have "users (fst (step st (set_write (Write_throws left) ev))) =
       users (fst (step st (set_write Write_ok ev)))"
    by (cases ev) (auto simp: handler_defs Let_def split: option.splits)
  moreover have "sockets (fst (step st (set_write (Write_throws left) ev))) =
       sockets (fst (step st (set_write Write_ok ev)))"
    by (cases ev) (auto simp: handler_defs Let_def split: option.splits)
  moreover have "snd (step st (set_write (Write_throws left) ev)) =
       snd (step st (set_write Write_ok ev))"
    by (cases ev) (auto simp: handler_defs Let_def split: option.splits)
  moreover have "messages (fst (step st (set_write (Write_throws left) ev))) \<noteq> messages st \<longrightarrow>
        console (fst (step st (set_write (Write_throws left) ev))) =
          console (fst (step st (set_write Write_ok ev))) @
            [Console_error (lit ''Error saving messages:'')]"
    by (cases ev) (auto simp: handler_defs saveMessages_def Let_def split: option.splits)
  moreover have "prefix (messages (fst (step st (set_write (Write_throws left) ev))))
       (messages (run (fst (step st (set_write (Write_throws left) ev))) evs))"
    by (rule run_messages_prefix)
  moreover have "messages_file
        (saveMessages Write_ok (run (fst (step st (set_write (Write_throws left) ev))) evs)) =
       Some (messages (run (fst (step st (set_write (Write_throws left) ev))) evs))"
    by (simp add: saveMessages_def)
  ultimately show ?thesis
    by blast
qed

theorem write_failure_not_fatal_witness:
  "messages (fst (step alice_joined (set_write (Write_throws None)
      (In_chat_message sid_a (lit ''hi'') (env_ok (lit ''x'')))))) =
     messages alice_joined @
       [Chat_msg (lit ''id-x'') (lit ''alice'') (lit ''hi'') (lit ''t-x'')]
   \<and> console (fst (step alice_joined (set_write (Write_throws None)
      (In_chat_message sid_a (lit ''hi'') (env_ok (lit ''x'')))))) =
     console (fst (step alice_joined (set_write Write_ok
      (In_chat_message sid_a (lit ''hi'') (env_ok (lit ''x'')))))) @
       [Console_error (lit ''Error saving messages:'')]"
proof -
  have appended: "messages (fst (step alice_joined (set_write (Write_throws None)
      (In_chat_message sid_a (lit ''hi'') (env_ok (lit ''x'')))))) =
     messages alice_joined @
       [Chat_msg (lit ''id-x'') (lit ''alice'') (lit ''hi'') (lit ''t-x'')]"
    by code_simp
  then have "messages (fst (step alice_joined (set_write (Write_throws None)
      (In_chat_message sid_a (lit ''hi'') (env_ok (lit ''x'')))))) \<noteq> messages alice_joined"
    by simp
  with write_failure_not_fatal [of None alice_joined
      "In_chat_message sid_a (lit ''hi'') (env_ok (lit ''x''))" "[]"] appended
  show ?thesis by blast
qed

section \<open>Typing indicators\<close>

text \<open>
  C7: \<^verbatim>\<open>typing\<close> and \<^verbatim>\<open>stop-typing\<close> return the state as it was, so nothing is appended to
  \<^verbatim>\<open>messages\<close> or written to the file; nothing they emit is delivered to the
  originating socket; and for a socket registered under a non-empty name the only
  emission is the indicator, with scope \<open>To_others\<close> of that socket.
\<close>

theorem typing_not_stored:
  "fst (typing sid st) = st \<and> fst (stop_typing sid st) = st
   \<and> fst (step st (In_typing sid)) = st \<and> fst (step st (In_stop_typing sid)) = st
   \<and> (\<forall>d \<in> set (deliveries cs (snd (typing sid st))). fst d \<noteq> sid)
   \<and> (\<forall>d \<in> set (deliveries cs (snd (stop_typing sid st))). fst d \<noteq> sid)
   \<and> (obj_get (users st) sid = Some name \<and> name \<noteq> [] \<longrightarrow>
        snd (typing sid st) = [Emit (To_others sid) (Typing name)]
        \<and> snd (stop_typing sid st) = [Emit (To_others sid) (Stop_typing name)])"
  by (auto simp: typing_def stop_typing_def deliveries_def truthy_def split: option.splits)

theorem typing_not_stored_witness:
  "obj_get (users alice_joined) sid_a = Some (lit ''alice'') \<and> lit ''alice'' \<noteq> []
   \<and> fst (typing sid_a alice_joined) = alice_joined
   \<and> snd (typing sid_a alice_joined) = [Emit (To_others sid_a) (Typing (lit ''alice''))]
   \<and> snd (stop_typing sid_a alice_joined) =
       [Emit (To_others sid_a) (Stop_typing (lit ''alice''))]
   \<and> deliveries [sid_a, sid_b] (snd (typing sid_a alice_joined)) =
       [(sid_b, Typing (lit ''alice''))]"
proof -
  have reg: "obj_get (users alice_joined) sid_a = Some (lit ''alice'')"
    by code_simp
  have name: "lit ''alice'' \<noteq> []"
    by code_simp
  have delivered: "deliveries [sid_a, sid_b] (snd (typing sid_a alice_joined)) =
       [(sid_b, Typing (lit ''alice''))]"
    by code_simp
  from typing_not_stored [of sid_a alice_joined "[sid_a, sid_b]" "lit ''alice''"]
    reg name delivered
  show ?thesis by blast
qed

section \<open>Upload without a file\<close>

text \<open>
  C8: an upload request with no file is answered with status 400 and the failure body,
  to the requester alone; the state is returned as it was, no message is built or
  appended, and nothing is emitted to any socket.
\<close>

theorem upload_without_file:
  "upload None username fid e st = (st, [Respond 400 (Failure_body (lit ''No file uploaded''))])
   \<and> step st (In_upload None username fid e) =
       (st, [Respond 400 (Failure_body (lit ''No file uploaded''))])
   \<and> deliveries cs (snd (upload None username fid e st)) = []"
  by (simp add: upload_def deliveries_def)

theorem upload_without_file_witness:
  "step alice_joined (In_upload None (Some (lit ''alice'')) (lit ''f1'') (env_ok (lit ''x''))) =
     (alice_joined, [Respond 400 (Failure_body (lit ''No file uploaded''))])"
  using upload_without_file [of "Some (lit ''alice'')" "lit ''f1''" "env_ok (lit ''x'')"
      alice_joined "[]"]
  by blast

section \<open>The registered name\<close>

text \<open>
  C9, as the code has it: every \<^verbatim>\<open>user-join\<close> from an open socket sets the name
  registered for that socket, the first one and any later one alike; and no sequence of
  inbound events without a \<^verbatim>\<open>user-join\<close> or \<^verbatim>\<open>disconnect\<close> of that socket changes the
  name registered for it.
\<close>

theorem name_changed_only_by_own_join:
  "(obj_get (sockets st) sid = Some ip \<longrightarrow>
      obj_get (users (fst (step st (In_user_join sid name e)))) sid = Some name)
   \<and> ((\<forall>ev \<in> set evs. \<not> user_join_of sid ev \<and> \<not> disconnect_of sid ev) \<longrightarrow>
      obj_get (users (run st evs)) sid = obj_get (users st) sid)"
  by (simp add: run_users_other user_join_def Let_def obj_get_set)

theorem name_changed_only_by_own_join_witness:
  "obj_get (sockets alice_joined) sid_a = Some (lit ''10.0.0.1'')
   \<and> obj_get (users (fst (step alice_joined
        (In_user_join sid_a (lit ''carol'') (env_ok (lit ''c'')))))) sid_a = Some (lit ''carol'')
   \<and> obj_get (users (run alice_joined
        [In_chat_message sid_a (lit ''hi'') (env_ok (lit ''x'')),
         In_connection sid_b (lit ''10.0.0.2''),
         In_user_join sid_b (lit ''bob'') (env_ok (lit ''b'')),
         In_typing sid_a,
         In_upload None None (lit ''f1'') (env_ok (lit ''u'')),
         In_disconnect sid_b (env_ok (lit ''d''))])) sid_a
      = obj_get (users alice_joined) sid_a"
proof -
  have sock: "obj_get (sockets alice_joined) sid_a = Some (lit ''10.0.0.1'')"
    by code_simp
  have others: "\<forall>ev \<in> set
        [In_chat_message sid_a (lit ''hi'') (env_ok (lit ''x'')),
         In_connection sid_b (lit ''10.0.0.2''),
         In_user_join sid_b (lit ''bob'') (env_ok (lit ''b'')),
         In_typing sid_a,
         In_upload None None (lit ''f1'') (env_ok (lit ''u'')),
         In_disconnect sid_b (env_ok (lit ''d''))].
       \<not> user_join_of sid_a ev \<and> \<not> disconnect_of sid_a ev"
    by code_simp
  from name_changed_only_by_own_join [of alice_joined sid_a "lit ''10.0.0.1''" "lit ''carol''"
      "env_ok (lit ''c'')"
      "[In_chat_message sid_a (lit ''hi'') (env_ok (lit ''x'')),
         In_connection sid_b (lit ''10.0.0.2''),
         In_user_join sid_b (lit ''bob'') (env_ok (lit ''b'')),
         In_typing sid_a,
         In_upload None None (lit ''f1'') (env_ok (lit ''u'')),
         In_disconnect sid_b (env_ok (lit ''d''))]"] sock others
  show ?thesis by blast
qed

text \<open>A second \<^verbatim>\<open>user-join\<close> from the socket registered as alice changes its name.\<close>

theorem second_join_renames:
  "obj_get (users alice_joined) sid_a = Some (lit ''alice'')
   \<and> obj_get (users (run alice_joined [In_user_join sid_a (lit ''bob'') (env_ok (lit ''b''))]))
        sid_a = Some (lit ''bob'')
   \<and> obj_get (users (run alice_joined [In_user_join sid_a (lit ''bob'') (env_ok (lit ''b''))]))
        sid_a \<noteq> obj_get (users alice_joined) sid_a"
  by code_simp

section \<open>Joining with the empty name\<close>

text \<open>
  C10, as the code has it: a \<^verbatim>\<open>user-join\<close> with the empty string from an open socket
  gives the socket an entry with the empty name in \<^verbatim>\<open>users\<close>. Through any later events
  that hold no further \<^verbatim>\<open>user-join\<close> and no \<^verbatim>\<open>disconnect\<close> of that socket, the socket
  stays open, the entry stays, and the empty name is in every \<^verbatim>\<open>users-list\<close> emitted; a
  \<^verbatim>\<open>chat-message\<close>, \<^verbatim>\<open>typing\<close> or \<^verbatim>\<open>stop-typing\<close> from the socket then leaves the state as
  it was and emits nothing, which is what the same handlers do for a socket that has no
  entry.
\<close>

theorem empty_name_join:
  fixes st st0 :: server and sid ip msg :: jsstring and e e' :: env and evs :: "inbound list"
  assumes "obj_get (sockets st) sid = Some ip"
    and "\<forall>ev \<in> set evs. \<not> user_join_of sid ev \<and> \<not> disconnect_of sid ev"
  defines "st' \<equiv> run (fst (step st (In_user_join sid [] e))) evs"
  shows "obj_get (sockets st') sid \<noteq> None
     \<and> obj_get (users st') sid = Some []
     \<and> [] \<in> set (obj_values (users st'))
     \<and> (\<forall>ev sc names. \<not> user_join_of sid ev \<and> \<not> disconnect_of sid ev \<longrightarrow>
          Emit sc (Users_list names) \<in> set (snd (step st' ev)) \<longrightarrow> [] \<in> set names)
     \<and> chat_message sid msg e' st' = (st', [])
     \<and> typing sid st' = (st', [])
     \<and> stop_typing sid st' = (st', [])
     \<and> step st' (In_chat_message sid msg e') = (st', [])
     \<and> step st' (In_typing sid) = (st', [])
     \<and> step st' (In_stop_typing sid) = (st', [])
     \<and> (obj_get (users st0) sid = None \<longrightarrow>
          chat_message sid msg e' st0 = (st0, [])
          \<and> typing sid st0 = (st0, [])
          \<and> stop_typing sid st0 = (st0, []))"
proof -
  have no_join: "\<forall>ev \<in> set evs. \<not> user_join_of sid ev"
    and no_disconnect: "\<forall>ev \<in> set evs. \<not> disconnect_of sid ev"
    using assms(2) by blast+
  have "obj_get (sockets (fst (step st (In_user_join sid [] e)))) sid \<noteq> None"
    using assms(1) by (simp add: user_join_def Let_def)
  then have sock: "obj_get (sockets st') sid \<noteq> None"
    unfolding st'_def using no_disconnect by (rule run_socket_open [rotated])
  have "obj_get (users (fst (step st (In_user_join sid [] e)))) sid = Some []"
    using assms(1) by (simp add: user_join_def Let_def obj_get_set)
  then have reg: "obj_get (users st') sid = Some []"
    unfolding st'_def using no_join by (rule run_users_empty_name [rotated])
  then have "[] \<in> set (obj_values (users st'))"
    by (rule obj_get_values)
  moreover have "\<forall>ev sc names. \<not> user_join_of sid ev \<and> \<not> disconnect_of sid ev \<longrightarrow>
          Emit sc (Users_list names) \<in> set (snd (step st' ev)) \<longrightarrow> [] \<in> set names"
    using users_list_holds_empty_name [OF reg] by blast
  moreover note falsy_name_dropped [of st' sid msg e'] falsy_name_handlers [of st' sid msg e']
    falsy_name_handlers [of st0 sid msg e']
  ultimately show ?thesis
    using reg sock by blast
qed

theorem empty_name_join_witness:
  "obj_get (sockets bob_connected) sid_b = Some (lit ''10.0.0.2'')
   \<and> obj_get (sockets empty_joined) sid_b = Some (lit ''10.0.0.2'')
   \<and> obj_get (users empty_joined) sid_b = Some []
   \<and> [] \<in> set (obj_values (users empty_joined))
   \<and> step empty_joined (In_chat_message sid_b (lit ''hello'') (env_ok (lit ''y''))) =
       (empty_joined, [])
   \<and> step empty_joined (In_typing sid_b) = (empty_joined, [])
   \<and> step empty_joined (In_stop_typing sid_b) = (empty_joined, [])
   \<and> obj_get (users bob_connected) sid_b = None
   \<and> chat_message sid_b (lit ''hello'') (env_ok (lit ''y'')) bob_connected = (bob_connected, [])
   \<and> snd (step empty_joined (In_get_users sid_a)) =
       [Emit (To_one sid_a) (Users_list [lit ''alice'', []])]"
proof -
  have sock: "obj_get (sockets bob_connected) sid_b = Some (lit ''10.0.0.2'')"
    by code_simp
  have still_open: "obj_get (sockets empty_joined) sid_b = Some (lit ''10.0.0.2'')"
    by code_simp
  have later: "\<forall>ev \<in> set after_empty_join. \<not> user_join_of sid_b ev \<and> \<not> disconnect_of sid_b ev"
    by code_simp
  have never: "obj_get (users bob_connected) sid_b = None"
    by code_simp
  have snapshot: "snd (step empty_joined (In_get_users sid_a)) =
       [Emit (To_one sid_a) (Users_list [lit ''alice'', []])]"
    by code_simp
  from empty_name_join [OF sock later, of "env_ok (lit ''b'')" "lit ''hello''"
      "env_ok (lit ''y'')" bob_connected] sock still_open never snapshot
  show ?thesis
    unfolding empty_joined_def by blast
qed

text \<open>
  A socket that joins with the empty name and then joins again as bob is registered as
  bob: the empty name is gone from \<^verbatim>\<open>users\<close>, and its next chat message is stored and
  sent to all.
\<close>

theorem empty_name_rejoin_chats:
  "obj_get (sockets rejoined) sid_b = Some (lit ''10.0.0.2'')
   \<and> obj_get (users rejoined) sid_b = Some (lit ''bob'')
   \<and> [] \<notin> set (obj_values (users rejoined))
   \<and> messages (fst (step rejoined (In_chat_message sid_b (lit ''hello'') (env_ok (lit ''y'')))))
       \<noteq> messages rejoined
   \<and> snd (step rejoined (In_chat_message sid_b (lit ''hello'') (env_ok (lit ''y'')))) =
       [Emit To_all (Chat_message
          (Chat_msg (lit ''id-y'') (lit ''bob'') (lit ''hello'') (lit ''t-y'')))]"
  by code_simp

end
